theory Spec2Isabelle
  imports Complex_Main "HOL-Library.Word"
begin

section \<open>Python values used by DragonBridge.py\<close>

text \<open>
  A Python \<open>str\<close> is a sequence of Unicode code points; a code point is a natural
  number. \<open>str_of\<close> reads an ASCII literal of the source.
\<close>

type_synonym pystr = "nat list"

definition str_of :: "string \<Rightarrow> pystr" where
  "str_of s = map of_char s"

text \<open>The exception classes that occur; every one of them derives from \<open>Exception\<close>.\<close>

datatype py_exc =
  TypeError | ValueError | KeyError | OSError | OverflowError | JSONDecodeError

subsection \<open>\<open>str.strip()\<close>, \<open>str.lower()\<close>, \<open>str.upper()\<close>\<close>

text \<open>
  \<open>str.strip()\<close> without argument removes leading and trailing code points for which
  \<open>str.isspace\<close> holds: U+0009..U+000D, U+001C..U+0020, U+0085, U+00A0, U+1680,
  U+2000..U+200A, U+2028, U+2029, U+202F, U+205F, U+3000.
\<close>

definition py_isspace :: "nat \<Rightarrow> bool" where
  "py_isspace c =
     ((9 \<le> c \<and> c \<le> 13) \<or> (28 \<le> c \<and> c \<le> 32) \<or> c = 133 \<or> c = 160 \<or> c = 5760 \<or>
      (8192 \<le> c \<and> c \<le> 8202) \<or> c = 8232 \<or> c = 8233 \<or> c = 8239 \<or> c = 8287 \<or>
      c = 12288)"

definition py_strip :: "pystr \<Rightarrow> pystr" where
  "py_strip s = rev (dropWhile py_isspace (rev (dropWhile py_isspace s)))"

text \<open>
  \<open>str.lower()\<close> replaces the code point at each position by its lowercase expansion.
  For an ASCII code point that is the ASCII lowercase letter. For any other code point
  the expansion (one to three code points, depending on the position for the Greek
  capital sigma) comes from the interpreter's Unicode database, which is no part of
  the repository: it is the parameter \<open>ucd\<close>, given the whole string and the position.
  \<open>str.upper()\<close> is modelled the same way.
\<close>

type_synonym case_table = "pystr \<Rightarrow> nat \<Rightarrow> pystr"

definition ascii_lower :: "nat \<Rightarrow> nat" where
  "ascii_lower c = (if 65 \<le> c \<and> c \<le> 90 then c + 32 else c)"

definition ascii_upper :: "nat \<Rightarrow> nat" where
  "ascii_upper c = (if 97 \<le> c \<and> c \<le> 122 then c - 32 else c)"

fun lower_from :: "case_table \<Rightarrow> pystr \<Rightarrow> nat \<Rightarrow> pystr \<Rightarrow> pystr" where
  "lower_from ucd whole i [] = []"
| "lower_from ucd whole i (c # cs) =
     (if c < 128 then [ascii_lower c] else ucd whole i) @ lower_from ucd whole (Suc i) cs"

definition py_lower :: "case_table \<Rightarrow> pystr \<Rightarrow> pystr" where
  "py_lower ucd s = lower_from ucd s 0 s"

fun upper_from :: "case_table \<Rightarrow> pystr \<Rightarrow> nat \<Rightarrow> pystr \<Rightarrow> pystr" where
  "upper_from ucd whole i [] = []"
| "upper_from ucd whole i (c # cs) =
     (if c < 128 then [ascii_upper c] else ucd whole i) @ upper_from ucd whole (Suc i) cs"

definition py_upper :: "case_table \<Rightarrow> pystr \<Rightarrow> pystr" where
  "py_upper ucd s = upper_from ucd s 0 s"

text \<open>A case table that leaves every non-ASCII code point as it is, for concrete runs.\<close>

definition caseless :: case_table where
  "caseless whole i = [whole ! i]"

subsection \<open>Dictionaries with literal keys\<close>

text \<open>
  A dict literal is the list of its items in source order. \<open>k in d\<close> and \<open>d[k]\<close>
  are the two operations the classifier uses; \<open>d[k]\<close> raises \<open>KeyError\<close> on a
  missing key.
\<close>

definition py_in :: "'k \<Rightarrow> ('k \<times> 'v) list \<Rightarrow> bool" where
  "py_in k d = (k \<in> set (map fst d))"

definition py_getitem :: "('k \<times> 'v) list \<Rightarrow> 'k \<Rightarrow> py_exc + 'v" where
  "py_getitem d k = (case map_of d k of None \<Rightarrow> Inl KeyError | Some v \<Rightarrow> Inr v)"

section \<open>Voice command processing\<close>

definition VOICE_COMMANDS :: "(pystr \<times> pystr) list" where
  "VOICE_COMMANDS =
    [(str_of ''new line'', [10]),
     (str_of ''new paragraph'', [10, 10]),
     (str_of ''tab key'', [9]),
     (str_of ''period'', str_of ''.''),
     (str_of ''comma'', str_of '',''),
     (str_of ''exclamation point'', str_of ''!''),
     (str_of ''exclamation mark'', str_of ''!''),
     (str_of ''question mark'', str_of ''?''),
     (str_of ''colon'', str_of '':''),
     (str_of ''semicolon'', str_of '';''),
     (str_of ''open paren'', str_of ''(''),
     (str_of ''close paren'', str_of '')''),
     (str_of ''open quote'', [8220]),
     (str_of ''close quote'', [8221]),
     (str_of ''open single quote'', [8216]),
     (str_of ''close single quote'', [8217]),
     (str_of ''hyphen'', str_of ''-''),
     (str_of ''dash'', [8212]),
     (str_of ''ellipsis'', [8230])]"

definition ACTION_COMMANDS :: "(pystr \<times> pystr) list" where
  "ACTION_COMMANDS =
    [(str_of ''select all'', str_of ''.uno:SelectAll''),
     (str_of ''undo that'', str_of ''.uno:Undo''),
     (str_of ''redo that'', str_of ''.uno:Redo''),
     (str_of ''bold that'', str_of ''.uno:Bold''),
     (str_of ''italicize that'', str_of ''.uno:Italic''),
     (str_of ''underline that'', str_of ''.uno:Underline''),
     (str_of ''cut that'', str_of ''.uno:Cut''),
     (str_of ''copy that'', str_of ''.uno:Copy''),
     (str_of ''paste that'', str_of ''.uno:Paste''),
     (str_of ''delete that'', str_of ''.uno:SwBackspace''),
     (str_of ''save document'', str_of ''.uno:Save''),
     (str_of ''scratch that'', str_of ''.uno:Undo'')]"

text \<open>
  \<open>process_voice_commands(text)\<close> returns the pair \<open>(type, result)\<close>; the model keeps
  the pair and makes the \<open>KeyError\<close> of the two subscripts a possible outcome.
\<close>

definition process_voice_commands :: "case_table \<Rightarrow> pystr \<Rightarrow> py_exc + (pystr \<times> pystr)" where
  "process_voice_commands ucd text =
     (let lower = py_lower ucd (py_strip text) in
      if py_in lower ACTION_COMMANDS then
        (case py_getitem ACTION_COMMANDS lower of
           Inl e \<Rightarrow> Inl e
         | Inr v \<Rightarrow> Inr (str_of ''action'', v))
      else if py_in lower VOICE_COMMANDS then
        (case py_getitem VOICE_COMMANDS lower of
           Inl e \<Rightarrow> Inl e
         | Inr v \<Rightarrow> Inr (str_of ''text'', v))
      else Inr (str_of ''insert'', text))"

section \<open>Configuration\<close>

text \<open>
  The values \<open>json.load\<close> returns: \<open>None\<close>, a bool, an int, a float, a str, a list,
  or a dict with str keys. \<open>PFloat r\<close> is a finite float, by its exact value.
  \<open>PDict kvs\<close> holds the members of the JSON object in file order; of a repeated key
  the dict keeps the last value, at the position of the first.
\<close>

datatype pyval =
    PNone
  | PBool bool
  | PInt int
  | PFloat rat
  | PStr pystr
  | PList "pyval list"
  | PDict "(pystr \<times> pyval) list"

text \<open>
  A dict stores an object under its hash key: numbers that compare equal (\<open>True\<close>,
  \<open>1\<close>, \<open>1.0\<close>) share one key; lists and dicts are unhashable.
\<close>

datatype hkey = KNone | KNum rat | KStr pystr

fun py_hash :: "pyval \<Rightarrow> py_exc + hkey" where
  "py_hash PNone = Inr KNone"
| "py_hash (PBool b) = Inr (KNum (if b then 1 else 0))"
| "py_hash (PInt i) = Inr (KNum (of_int i))"
| "py_hash (PFloat r) = Inr (KNum r)"
| "py_hash (PStr s) = Inr (KStr s)"
| "py_hash (PList xs) = Inl TypeError"
| "py_hash (PDict kvs) = Inl TypeError"

type_synonym pydict = "hkey \<rightharpoonup> pyval"

definition dict_get :: "pydict \<Rightarrow> pystr \<Rightarrow> pyval \<Rightarrow> pyval" where
  "dict_get d k dflt = (case d (KStr k) of None \<Rightarrow> dflt | Some v \<Rightarrow> v)"

text \<open>The value a parsed JSON object holds for a key: that of the last member with it.\<close>

definition json_member :: "(pystr \<times> pyval) list \<Rightarrow> pystr \<Rightarrow> pyval option" where
  "json_member kvs k = map_of (rev kvs) k"

text \<open>The keys of a parsed JSON object in insertion order (first occurrences).\<close>

definition json_keys :: "(pystr \<times> pyval) list \<Rightarrow> pystr list" where
  "json_keys kvs = rev (remdups (rev (map fst kvs)))"

text \<open>
  \<open>d.update(other)\<close>. A dict is merged member by member. Any other object is iterated
  as a sequence of key/value pairs: each element must itself be iterable with exactly
  two elements (a list of two, a str of two code points, a dict of two keys), and its
  first element hashable. The update stops at the first element that fails, and the
  items stored before it stay in \<open>d\<close>: the result is the dict and the exception, if any.
\<close>

fun pair_of :: "pyval \<Rightarrow> py_exc + (pyval \<times> pyval)" where
  "pair_of (PList xs) = (case xs of [a, b] \<Rightarrow> Inr (a, b) | _ \<Rightarrow> Inl ValueError)"
| "pair_of (PStr s) = (case s of [a, b] \<Rightarrow> Inr (PStr [a], PStr [b]) | _ \<Rightarrow> Inl ValueError)"
| "pair_of (PDict kvs) =
     (case json_keys kvs of [a, b] \<Rightarrow> Inr (PStr a, PStr b) | _ \<Rightarrow> Inl ValueError)"
| "pair_of PNone = Inl TypeError"
| "pair_of (PBool b) = Inl TypeError"
| "pair_of (PInt i) = Inl TypeError"
| "pair_of (PFloat r) = Inl TypeError"

fun update_seq :: "pydict \<Rightarrow> pyval list \<Rightarrow> pydict \<times> py_exc option" where
  "update_seq d [] = (d, None)"
| "update_seq d (x # xs) =
     (case pair_of x of
        Inl e \<Rightarrow> (d, Some e)
      | Inr (k, v) \<Rightarrow>
          (case py_hash k of
             Inl e \<Rightarrow> (d, Some e)
           | Inr h \<Rightarrow> update_seq (d(h \<mapsto> v)) xs))"

fun dict_update :: "pydict \<Rightarrow> pyval \<Rightarrow> pydict \<times> py_exc option" where
  "dict_update d (PDict kvs) = (fold (\<lambda>(k, v) m. m(KStr k \<mapsto> v)) kvs d, None)"
| "dict_update d (PList xs) = update_seq d xs"
| "dict_update d (PStr s) = (d, if s = [] then None else Some ValueError)"
| "dict_update d PNone = (d, Some TypeError)"
| "dict_update d (PBool b) = (d, Some TypeError)"
| "dict_update d (PInt i) = (d, Some TypeError)"
| "dict_update d (PFloat r) = (d, Some TypeError)"

text \<open>
  What \<open>load_config\<close> finds on disk: \<open>get_config_path()\<close> raises (\<open>os.makedirs\<close>),
  the file does not exist, \<open>open\<close> or \<open>json.load\<close> raises, or \<open>json.load\<close> returns
  a value.
\<close>

datatype config_file =
    PathFails py_exc
  | NoFile
  | LoadFails py_exc
  | Loaded pyval

definition defaults :: pydict where
  "defaults =
     [KStr (str_of ''poll_interval_ms'') \<mapsto> PInt 300,
      KStr (str_of ''auto_space'') \<mapsto> PBool True,
      KStr (str_of ''show_notifications'') \<mapsto> PBool True]"

text \<open>The body of the \<open>try\<close> in \<open>load_config\<close>: the dict as it stands, and the exception.\<close>

fun load_config_try :: "config_file \<Rightarrow> pydict \<Rightarrow> pydict \<times> py_exc option" where
  "load_config_try (PathFails e) d = (d, Some e)"
| "load_config_try NoFile d = (d, None)"
| "load_config_try (LoadFails e) d = (d, Some e)"
| "load_config_try (Loaded saved) d = dict_update d saved"

text \<open>\<open>except Exception: pass\<close>, then \<open>return defaults\<close>.\<close>

definition load_config :: "config_file \<Rightarrow> pydict" where
  "load_config f = fst (load_config_try f defaults)"

section \<open>The clipboard bridge\<close>

text \<open>
  The attributes of a \<open>ClipboardBridge\<close>. \<open>ctx\<close> is only handed on to the host and
  is left out. The clipboard sequence number is a \<open>DWORD\<close>.
\<close>

datatype thread_handle = MonitorThread

record bridge =
  running :: bool
  thread :: "thread_handle option"
  config :: pydict
  last_seq :: "32 word"
  last_text :: pystr

text \<open>
  What one call of \<open>get_clipboard_seq()\<close> and of \<open>get_clipboard_text()\<close> gives: a
  value, or an exception of the Windows binding.
\<close>

record clipboard =
  clip_seq :: "py_exc + 32 word"
  clip_text :: "py_exc + pystr"

text \<open>
  Where in an access to the host a UNO call raises: while the target is looked up
  (service manager, desktop, frame, component, controller, cursors), in the call that
  acts on it (\<open>insertString\<close>, \<open>executeDispatch\<close>, \<open>setText\<close>), or in the call that
  follows it (\<open>gotoEnd\<close>).
\<close>

datatype uno_point = Lookup | Act | Finish

text \<open>
  The host (the LibreOffice desktop) as one access to it finds it: \<open>uno_error\<close> is the
  exception a UNO call of that access raises, if any, and where; the other fields are
  the conditions the source tests: \<open>desktop.getCurrentFrame()\<close> is set; the current
  component is a text document that has a text and a view cursor; the component has a
  controller with a status bar; the view cursor is collapsed. An exception at a call
  that the access does not reach is not raised.
\<close>

record host =
  uno_error :: "(uno_point \<times> py_exc) option"
  has_frame :: bool
  has_text_doc :: bool
  has_status_bar :: bool
  collapsed :: bool

text \<open>
  The trace of a run: the calls that leave the bridge (thread, host, \<open>traceback\<close>,
  \<open>time.sleep\<close>), and the entries into \<open>_notify\<close> and \<open>_process_clipboard_text\<close>.
  A call is in the trace whether it returns or raises.
\<close>

datatype event =
    ThreadStarted
  | ThreadJoined
  | Notify pystr
  | SetStatusText pystr
  | ProcessClipboardText pystr
  | ExecuteDispatch pystr
  | InsertString pystr bool
  | GotoEnd
  | PrintExc py_exc
  | Sleep rat

text \<open>\<open>_notify\<close>: every exception is passed over in silence.\<close>

definition notify :: "host \<Rightarrow> pystr \<Rightarrow> event list" where
  "notify h message =
     Notify message #
     (case uno_error h of
        Some (Lookup, e) \<Rightarrow> []
      | _ \<Rightarrow>
          if has_status_bar h then [SetStatusText (str_of ''[Dragon Bridge] '' @ message)]
          else [])"

text \<open>
  \<open>_insert_text\<close>, with \<open>_get_active_document\<close>: an exception of the lookup is printed
  and nothing is inserted; an exception of \<open>insertString\<close> or of \<open>gotoEnd\<close> is printed
  after the calls made so far.
\<close>

definition insert_text :: "host \<Rightarrow> pystr \<Rightarrow> event list" where
  "insert_text h text =
     (case uno_error h of
        Some (Lookup, e) \<Rightarrow> [PrintExc e]
      | Some (Act, e) \<Rightarrow>
          if has_text_doc h then [InsertString text (\<not> collapsed h), PrintExc e] else []
      | Some (Finish, e) \<Rightarrow>
          if has_text_doc h then [InsertString text (\<not> collapsed h), GotoEnd, PrintExc e]
          else []
      | None \<Rightarrow>
          if has_text_doc h then [InsertString text (\<not> collapsed h), GotoEnd] else [])"

text \<open>\<open>_dispatch_uno_command\<close>: no call follows \<open>executeDispatch\<close>.\<close>

definition dispatch_uno_command :: "host \<Rightarrow> pystr \<Rightarrow> event list" where
  "dispatch_uno_command h cmd_url =
     (case uno_error h of
        Some (Lookup, e) \<Rightarrow> [PrintExc e]
      | Some (Act, e) \<Rightarrow> if has_frame h then [ExecuteDispatch cmd_url, PrintExc e] else []
      | _ \<Rightarrow> if has_frame h then [ExecuteDispatch cmd_url] else [])"

definition process_clipboard_text :: "case_table \<Rightarrow> host \<Rightarrow> pystr \<Rightarrow> event list \<times> py_exc option" where
  "process_clipboard_text ucd h text =
     (case process_voice_commands ucd text of
        Inl e \<Rightarrow> ([ProcessClipboardText text], Some e)
      | Inr (cmd_type, result) \<Rightarrow>
          (ProcessClipboardText text #
           (if cmd_type = str_of ''action'' then dispatch_uno_command h result
            else if cmd_type = str_of ''text'' then insert_text h result
            else insert_text h text), None))"

definition started_message :: pystr where
  "started_message =
     str_of ''Clipboard monitoring started - dictate into DragonPad and transfer.''"

definition stopped_message :: pystr where
  "stopped_message = str_of ''Clipboard monitoring stopped.''"


text \<open>
  \<open>start\<close> and \<open>stop\<close> give the bridge after the call, the trace of the call and the
  exception that leaves it, if any. The monitor thread that \<open>start\<close> spawns runs
  \<open>monitor_loop\<close> beside the caller; its trace is not part of the trace of \<open>start\<close>.
\<close>

definition start :: "clipboard \<Rightarrow> host \<Rightarrow> bridge \<Rightarrow> bridge \<times> event list \<times> py_exc option" where
  "start clip h b =
     (if running b then (b, [], None)
      else
        let b1 = b\<lparr>running := True\<rparr> in
        case clip_seq clip of
          Inl e \<Rightarrow> (b1, [], Some e)
        | Inr s \<Rightarrow>
            let b2 = b1\<lparr>last_seq := s\<rparr> in
            (case clip_text clip of
               Inl e \<Rightarrow> (b2, [], Some e)
             | Inr t \<Rightarrow>
                 (b2\<lparr>last_text := t, thread := Some MonitorThread\<rparr>,
                  ThreadStarted # notify h started_message, None)))"

definition stop :: "host \<Rightarrow> bridge \<Rightarrow> bridge \<times> event list \<times> py_exc option" where
  "stop h b =
     (let b1 = b\<lparr>running := False\<rparr> in
      case thread b1 of
        Some t \<Rightarrow> (b1\<lparr>thread := None\<rparr>, ThreadJoined # notify h stopped_message, None)
      | None \<Rightarrow> (b1, notify h stopped_message, None))"

definition is_running :: "bridge \<Rightarrow> bool" where
  "is_running b = running b"

subsection \<open>The monitor loop\<close>

text \<open>
  What one iteration of the loop finds: whether the main thread has cleared
  \<open>self.running\<close> (a call of \<open>stop\<close>) since the last test of the loop condition, the
  clipboard, and the host.
\<close>

record tick =
  tick_stop :: bool
  tick_clip :: clipboard
  tick_host :: host

text \<open>Lines 214 to 221, the body of the \<open>try\<close>: bridge, trace, and the exception.\<close>

definition monitor_try :: "case_table \<Rightarrow> tick \<Rightarrow> bridge \<Rightarrow> bridge \<times> event list \<times> py_exc option" where
  "monitor_try ucd t b =
     (case clip_seq (tick_clip t) of
        Inl e \<Rightarrow> (b, [], Some e)
      | Inr current_seq \<Rightarrow>
          if current_seq \<noteq> last_seq b then
            let b1 = b\<lparr>last_seq := current_seq\<rparr> in
            (case clip_text (tick_clip t) of
               Inl e \<Rightarrow> (b1, [], Some e)
             | Inr current_text \<Rightarrow>
                 if current_text \<noteq> [] \<and> current_text \<noteq> last_text b1 then
                   let b2 = b1\<lparr>last_text := current_text\<rparr>;
                       (evs, exc) = process_clipboard_text ucd (tick_host t) current_text
                   in (b2, evs, exc)
                 else (b1, [], None))
          else (b, [], None))"

text \<open>The \<open>try\<close> statement with its handler \<open>except Exception: traceback.print_exc()\<close>.\<close>

definition monitor_body :: "case_table \<Rightarrow> tick \<Rightarrow> bridge \<Rightarrow> bridge \<times> event list" where
  "monitor_body ucd t b =
     (let (b', evs, exc) = monitor_try ucd t b in
      (b', evs @ (case exc of Some e \<Rightarrow> [PrintExc e] | None \<Rightarrow> [])))"

text \<open>
  \<open>time.sleep(secs)\<close> converts the interval to the timer of the platform and raises
  \<open>OverflowError\<close> when it does not fit; it raises \<open>ValueError\<close> for a negative
  interval that fits. The range of the timer depends on the interpreter and the
  platform (64-bit nanoseconds, about 9.2e9 seconds either way; on Windows before
  Python 3.11 no more than \<open>2^32 - 1\<close> milliseconds): it is the parameter \<open>tm\<close>.
\<close>

record timer =
  timer_min :: rat
  timer_max :: rat

definition py_sleep :: "timer \<Rightarrow> rat \<Rightarrow> event list \<times> py_exc option" where
  "py_sleep tm secs =
     ([Sleep secs],
      if secs < timer_min tm \<or> timer_max tm < secs then Some OverflowError
      else if secs < 0 then Some ValueError
      else None)"

text \<open>
  The \<open>while\<close> loop, run on the list of what its iterations find; the list ends where
  the observation of the thread ends. \<open>time.sleep\<close> is outside the \<open>try\<close>: an
  exception of it ends the thread.
\<close>

fun monitor_while :: "case_table \<Rightarrow> timer \<Rightarrow> rat \<Rightarrow> tick list \<Rightarrow> bridge \<Rightarrow> bridge \<times> event list \<times> py_exc option" where
  "monitor_while ucd tm poll_sec [] b = (b, [], None)"
| "monitor_while ucd tm poll_sec (t # ts) b =
     (let b0 = (if tick_stop t then b\<lparr>running := False\<rparr> else b) in
      if running b0 then
        let (b1, evs) = monitor_body ucd t b0;
            (slept, exc) = py_sleep tm poll_sec
        in case exc of
             Some e \<Rightarrow> (b1, evs @ slept, Some e)
           | None \<Rightarrow>
               let (b2, evs2, exc2) = monitor_while ucd tm poll_sec ts b1
               in (b2, evs @ slept @ evs2, exc2)
      else (b0, [], None))"

text \<open>
  A float is given by its exact value. Float arithmetic rounds the exact result to a
  float; the rounding is part of the interpreter and is the parameter \<open>rnd\<close>. The
  conversion of an int to a float raises \<open>OverflowError\<close> when the int rounds to
  \<open>2^1024\<close> or more in magnitude, that is from \<open>2^1024 - 2^970\<close> on.
\<close>

type_synonym rounding = "rat \<Rightarrow> rat"

definition int_to_float :: "rounding \<Rightarrow> int \<Rightarrow> py_exc + rat" where
  "int_to_float rnd i =
     (if \<bar>i\<bar> < 2 ^ 1024 - 2 ^ 970 then Inr (rnd (of_int i)) else Inl OverflowError)"

text \<open>
  \<open>x / 1000.0\<close>: a bool or an int is converted to a float and divided, a float is
  divided; \<open>TypeError\<close> on every other value.
\<close>

fun truediv_1000 :: "rounding \<Rightarrow> pyval \<Rightarrow> py_exc + rat" where
  "truediv_1000 rnd (PBool b) = Inr (rnd ((if b then 1 else 0) / 1000))"
| "truediv_1000 rnd (PInt i) =
     (case int_to_float rnd i of
        Inl e \<Rightarrow> Inl e
      | Inr x \<Rightarrow> Inr (rnd (x / 1000)))"
| "truediv_1000 rnd (PFloat r) = Inr (rnd (r / 1000))"
| "truediv_1000 rnd PNone = Inl TypeError"
| "truediv_1000 rnd (PStr s) = Inl TypeError"
| "truediv_1000 rnd (PList xs) = Inl TypeError"
| "truediv_1000 rnd (PDict kvs) = Inl TypeError"

text \<open>
  \<open>_monitor_loop\<close>: line 210 is before the loop and outside the \<open>try\<close>; an exception
  of it ends the thread before the first iteration.
\<close>

definition monitor_loop :: "case_table \<Rightarrow> rounding \<Rightarrow> timer \<Rightarrow> tick list \<Rightarrow> bridge \<Rightarrow> bridge \<times> event list \<times> py_exc option" where
  "monitor_loop ucd rnd tm ts b =
     (case truediv_1000 rnd (dict_get (config b) (str_of ''poll_interval_ms'') (PInt 300)) of
        Inl e \<Rightarrow> (b, [], Some e)
      | Inr poll_sec \<Rightarrow> monitor_while ucd tm poll_sec ts b)"

subsection \<open>Concrete runs\<close>

text \<open>
  A host with a Writer document, a running bridge, and an iteration with a given
  clipboard, used to run the definitions on concrete inputs.
\<close>

definition example_host :: host where
  "example_host =
     \<lparr>uno_error = None, has_frame = True, has_text_doc = True, has_status_bar = True,
      collapsed = True\<rparr>"

definition example_bridge :: bridge where
  "example_bridge =
     \<lparr>running = True, thread = Some MonitorThread, config = defaults, last_seq = 7,
      last_text = str_of ''old''\<rparr>"

definition stopped_bridge :: bridge where
  "stopped_bridge =
     \<lparr>running = False, thread = None, config = defaults, last_seq = 7,
      last_text = str_of ''old''\<rparr>"

definition example_tick :: "py_exc + 32 word \<Rightarrow> py_exc + pystr \<Rightarrow> tick" where
  "example_tick s t =
     \<lparr>tick_stop = False, tick_clip = \<lparr>clip_seq = s, clip_text = t\<rparr>,
      tick_host = example_host\<rparr>"

text \<open>
  The rounding on the numbers of the concrete runs. \<open>50\<close>, \<open>300\<close>, \<open>5000\<close> and \<open>5\<close>
  are floats. \<open>1 / 20\<close> and \<open>3 / 10\<close> are none: the floats nearest to them are
  \<open>3602879701896397 / 2^56\<close> and \<open>5404319552844595 / 2^54\<close>.
\<close>

definition example_rounding :: rounding where
  "example_rounding x =
     (if x = 1 / 20 then 3602879701896397 / 2 ^ 56
      else if x = 3 / 10 then 5404319552844595 / 2 ^ 54
      else x)"

text \<open>The timer of 64-bit nanoseconds.\<close>

definition example_timer :: timer where
  "example_timer = \<lparr>timer_min = - (2 ^ 63 / 10 ^ 9), timer_max = 2 ^ 63 / 10 ^ 9\<rparr>"

section \<open>Properties of the voice command processing\<close>

lemmas classifier_defs =
  str_of_def py_strip_def py_lower_def py_upper_def py_isspace_def ascii_lower_def
  ascii_upper_def py_in_def py_getitem_def process_voice_commands_def

lemma py_in_map_of: "py_in k d \<longleftrightarrow> map_of d k \<noteq> None"
  by (simp add: py_in_def map_of_eq_None_iff)

lemma ACTION_COMMANDS_keys_distinct: "distinct (map fst ACTION_COMMANDS)"
  by (simp add: ACTION_COMMANDS_def str_of_def)

lemma VOICE_COMMANDS_keys_distinct: "distinct (map fst VOICE_COMMANDS)"
  by (simp add: VOICE_COMMANDS_def str_of_def)

lemma tables_share_no_key:
  "set (map fst ACTION_COMMANDS) \<inter> set (map fst VOICE_COMMANDS) = {}"
  by (simp add: ACTION_COMMANDS_def VOICE_COMMANDS_def str_of_def)

text \<open>
  C1. For every input \<open>s\<close>, with \<open>n\<close> the input stripped and lowercased: the call returns
  (never raises); the result is \<open>('action', ACTION_COMMANDS[n])\<close> if \<open>n\<close> is a key of
  the action table, else \<open>('text', VOICE_COMMANDS[n])\<close> if \<open>n\<close> is a key of the text
  table, else \<open>('insert', s)\<close> with \<open>s\<close> the input itself. The action table is asked
  first.
\<close>

theorem process_voice_commands_rule:
  "process_voice_commands ucd s =
     Inr (let n = py_lower ucd (py_strip s) in
          case map_of ACTION_COMMANDS n of
            Some a \<Rightarrow> (str_of ''action'', a)
          | None \<Rightarrow>
              (case map_of VOICE_COMMANDS n of
                 Some t \<Rightarrow> (str_of ''text'', t)
               | None \<Rightarrow> (str_of ''insert'', s)))"
  by (auto simp: process_voice_commands_def Let_def py_in_map_of py_getitem_def
      split: option.splits)

text \<open>
  C2. For every phrase \<open>P\<close> of the action table with identifier \<open>a\<close>, the inputs \<open>P\<close>,
  \<open>P.upper()\<close> and \<open>" " + P + " "\<close> are all classified as the action \<open>a\<close>.
\<close>

theorem action_phrase_case_and_space_insensitive:
  "\<forall>(P, a) \<in> set ACTION_COMMANDS.
     process_voice_commands ucd P = Inr (str_of ''action'', a) \<and>
     process_voice_commands ucd (py_upper ucu P) = Inr (str_of ''action'', a) \<and>
     process_voice_commands ucd (str_of '' '' @ P @ str_of '' '') = Inr (str_of ''action'', a)"
  by (simp add: classifier_defs ACTION_COMMANDS_def)

theorem action_phrase_case_and_space_insensitive_witness:
  "(str_of ''bold that'', str_of ''.uno:Bold'') \<in> set ACTION_COMMANDS \<and>
   process_voice_commands caseless (str_of ''bold that'') =
     Inr (str_of ''action'', str_of ''.uno:Bold'') \<and>
   process_voice_commands caseless (py_upper caseless (str_of ''bold that'')) =
     Inr (str_of ''action'', str_of ''.uno:Bold'') \<and>
   py_upper caseless (str_of ''bold that'') = str_of ''BOLD THAT'' \<and>
   process_voice_commands caseless (str_of '' bold that '') =
     Inr (str_of ''action'', str_of ''.uno:Bold'')"
proof -
  have m: "(str_of ''bold that'', str_of ''.uno:Bold'') \<in> set ACTION_COMMANDS"
    by (simp add: ACTION_COMMANDS_def)
  have u: "py_upper caseless (str_of ''bold that'') = str_of ''BOLD THAT''"
    by (simp add: str_of_def py_upper_def ascii_upper_def)
  have s: "str_of '' '' @ str_of ''bold that'' @ str_of '' '' = str_of '' bold that ''"
    by (simp add: str_of_def)
  from bspec [OF action_phrase_case_and_space_insensitive [of caseless caseless] m] m u s
  show ?thesis by simp
qed

text \<open>
  C7, as the code has it. The action table maps \<open>"undo that"\<close> to \<open>".uno:Undo"\<close>, and
  \<open>"Undo That"\<close> is classified as the action \<open>".uno:Undo"\<close>.
\<close>

theorem undo_that_is_uno_undo:
  "map_of ACTION_COMMANDS (str_of ''undo that'') = Some (str_of ''.uno:Undo'') \<and>
   process_voice_commands ucd (str_of ''Undo That'') =
     Inr (str_of ''action'', str_of ''.uno:Undo'')"
  by (simp add: classifier_defs ACTION_COMMANDS_def)

text \<open>
  C7, as the claim has it: the identifier \<open>"UndoCommand"\<close> is neither the table's value
  for \<open>"undo that"\<close> nor the result for \<open>"Undo That"\<close>.
\<close>

theorem undo_that_is_not_UndoCommand:
  "\<not> (map_of ACTION_COMMANDS (str_of ''undo that'') = Some (str_of ''UndoCommand'') \<and>
      process_voice_commands caseless (str_of ''Undo That'') =
        Inr (str_of ''action'', str_of ''UndoCommand''))"
  by (simp add: classifier_defs ACTION_COMMANDS_def)

text \<open>
  C8, as the code has it. The action table has 12 entries and the text table 19, with
  no key repeated: 31 entries in total.
\<close>

theorem tables_have_31_entries:
  "length ACTION_COMMANDS = 12 \<and> distinct (map fst ACTION_COMMANDS) \<and>
   length VOICE_COMMANDS = 19 \<and> distinct (map fst VOICE_COMMANDS) \<and>
   card (dom (map_of ACTION_COMMANDS)) + card (dom (map_of VOICE_COMMANDS)) = 31"
proof -
  have a: "length ACTION_COMMANDS = 12" by (simp add: ACTION_COMMANDS_def)
  have v: "length VOICE_COMMANDS = 19" by (simp add: VOICE_COMMANDS_def)
  have ca: "card (dom (map_of ACTION_COMMANDS)) = length ACTION_COMMANDS"
    using distinct_card [OF ACTION_COMMANDS_keys_distinct]
    by (simp add: dom_map_of_conv_image_fst)
  have cv: "card (dom (map_of VOICE_COMMANDS)) = length VOICE_COMMANDS"
    using distinct_card [OF VOICE_COMMANDS_keys_distinct]
    by (simp add: dom_map_of_conv_image_fst)
  show ?thesis
    using a v ca cv ACTION_COMMANDS_keys_distinct VOICE_COMMANDS_keys_distinct by simp
qed

text \<open>C8, as the claim has it: the two tables do not have fewer than 30 entries.\<close>

theorem tables_not_fewer_than_30_entries:
  "\<not> (length ACTION_COMMANDS + length VOICE_COMMANDS < 30)"
  by (simp add: ACTION_COMMANDS_def VOICE_COMMANDS_def)

section \<open>Properties of the configuration\<close>

lemma fold_update_lookup:
  "fold (\<lambda>(k, v) m. m(KStr k \<mapsto> v)) kvs d (KStr k) =
     (case json_member kvs k of Some v \<Rightarrow> Some v | None \<Rightarrow> d (KStr k))"
  by (induction kvs arbitrary: d)
     (auto simp: json_member_def map_add_def split: option.splits)

lemma fold_update_keeps: "d h \<noteq> None \<Longrightarrow> fold (\<lambda>(k, v) m. m(KStr k \<mapsto> v)) kvs d h \<noteq> None"
  by (induction kvs arbitrary: d) auto

lemma update_seq_keeps: "d h \<noteq> None \<Longrightarrow> fst (update_seq d xs) h \<noteq> None"
  by (induction xs arbitrary: d) (auto split: sum.splits prod.splits)

lemma dict_update_keeps: "d h \<noteq> None \<Longrightarrow> fst (dict_update d x) h \<noteq> None"
  by (cases x) (simp_all add: fold_update_keeps update_seq_keeps)

lemma load_config_keeps: "defaults h \<noteq> None \<Longrightarrow> load_config f h \<noteq> None"
  by (cases f) (simp_all add: load_config_def dict_update_keeps)

lemma load_config_object:
  "load_config (Loaded (PDict kvs)) (KStr k) =
     (case json_member kvs k of Some v \<Rightarrow> Some v | None \<Rightarrow> defaults (KStr k))"
  by (simp add: load_config_def fold_update_lookup)

lemma defaults_values:
  "defaults (KStr (str_of ''poll_interval_ms'')) = Some (PInt 300)"
  "defaults (KStr (str_of ''auto_space'')) = Some (PBool True)"
  "defaults (KStr (str_of ''show_notifications'')) = Some (PBool True)"
  by (simp_all add: defaults_def str_of_def)

lemma dom_defaults:
  "dom defaults =
     {KStr (str_of ''poll_interval_ms''), KStr (str_of ''auto_space''),
      KStr (str_of ''show_notifications'')}"
  by (auto simp: defaults_def)

text \<open>
  What \<open>load_config\<close> returns, case by case. It returns a dict in every case, and
  the dict holds the three settings. When the file is missing the dict is the
  defaults, which are \<open>poll_interval_ms = 300\<close>, \<open>auto_space = True\<close>,
  \<open>show_notifications = True\<close> and nothing else. When the path cannot be made, when
  \<open>open\<close> or \<open>json.load\<close> raises, or when the file holds a JSON scalar or string, it
  is the defaults too. When the file holds a JSON object, a key of the object has the
  object's value and every other key has its default.
\<close>

lemma load_config_cases:
  "load_config f (KStr (str_of ''poll_interval_ms'')) \<noteq> None \<and>
   load_config f (KStr (str_of ''auto_space'')) \<noteq> None \<and>
   load_config f (KStr (str_of ''show_notifications'')) \<noteq> None \<and>
   load_config NoFile = defaults \<and>
   defaults (KStr (str_of ''poll_interval_ms'')) = Some (PInt 300) \<and>
   defaults (KStr (str_of ''auto_space'')) = Some (PBool True) \<and>
   defaults (KStr (str_of ''show_notifications'')) = Some (PBool True) \<and>
   dom defaults =
     {KStr (str_of ''poll_interval_ms''), KStr (str_of ''auto_space''),
      KStr (str_of ''show_notifications'')} \<and>
   load_config (PathFails e) = defaults \<and>
   load_config (LoadFails e) = defaults \<and>
   load_config (Loaded PNone) = defaults \<and>
   load_config (Loaded (PBool x)) = defaults \<and>
   load_config (Loaded (PInt i)) = defaults \<and>
   load_config (Loaded (PFloat r)) = defaults \<and>
   load_config (Loaded (PStr s)) = defaults \<and>
   load_config (Loaded (PDict kvs)) (KStr k) =
     (case json_member kvs k of Some v \<Rightarrow> Some v | None \<Rightarrow> defaults (KStr k))"
  using load_config_keeps [of _ f] defaults_values dom_defaults load_config_object [of kvs k]
  by (simp add: load_config_def)

text \<open>
  C6, at a file on which the code does not do what the claim says. The file holds the
  JSON array \<open>[["poll_interval_ms", 5], 7]\<close>. \<open>json.load\<close> returns the list;
  \<open>defaults.update\<close> stores its first element as a key and a value, and raises
  \<open>TypeError\<close> at the second; the handler passes, and \<open>load_config\<close> returns the
  dict as the failed update left it, with \<open>poll_interval_ms = 5\<close>: not the defaults.
\<close>

theorem load_config_keeps_failed_update:
  "load_config_try
     (Loaded (PList [PList [PStr (str_of ''poll_interval_ms''), PInt 5], PInt 7])) defaults =
     (defaults(KStr (str_of ''poll_interval_ms'') \<mapsto> PInt 5), Some TypeError) \<and>
   load_config (Loaded (PList [PList [PStr (str_of ''poll_interval_ms''), PInt 5], PInt 7]))
     (KStr (str_of ''poll_interval_ms'')) = Some (PInt 5) \<and>
   defaults (KStr (str_of ''poll_interval_ms'')) = Some (PInt 300) \<and>
   load_config (Loaded (PList [PList [PStr (str_of ''poll_interval_ms''), PInt 5], PInt 7])) \<noteq>
     defaults"
proof -
  have t: "load_config_try
     (Loaded (PList [PList [PStr (str_of ''poll_interval_ms''), PInt 5], PInt 7])) defaults =
     (defaults(KStr (str_of ''poll_interval_ms'') \<mapsto> PInt 5), Some TypeError)"
    by simp
  then have l: "load_config
     (Loaded (PList [PList [PStr (str_of ''poll_interval_ms''), PInt 5], PInt 7]))
     (KStr (str_of ''poll_interval_ms'')) = Some (PInt 5)"
    by (simp add: load_config_def)
  have d: "defaults (KStr (str_of ''poll_interval_ms'')) = Some (PInt 300)"
    by (rule defaults_values)
  from l d have "load_config
     (Loaded (PList [PList [PStr (str_of ''poll_interval_ms''), PInt 5], PInt 7])) \<noteq> defaults"
    by auto
  with t l d show ?thesis by blast
qed

section \<open>Properties of the monitor loop\<close>

lemmas example_defs = example_host_def example_bridge_def stopped_bridge_def example_tick_def












text \<open>
  Where \<open>time.sleep\<close> raises, the thread ends in the first iteration that runs: the
  call is line 226, outside the \<open>try\<close>.
\<close>

lemma monitor_while_sleep_raises:
  "running b \<Longrightarrow> \<not> tick_stop t \<Longrightarrow> snd (py_sleep tm poll_sec) = Some e \<Longrightarrow>
   monitor_while ucd tm poll_sec (t # ts) b =
     (fst (monitor_body ucd t b), snd (monitor_body ucd t b) @ [Sleep poll_sec], Some e)"
  by (auto simp: Let_def py_sleep_def split: prod.splits if_splits)



section \<open>Properties of \<open>start\<close> and \<open>stop\<close>\<close>

text \<open>
  C5, as the code has it. \<open>start\<close> on a running bridge changes nothing, calls nothing
  and raises nothing; so a second \<open>start\<close> after a first one is such a call, and the
  bridge is running after it. \<open>stop\<close> never raises and leaves the bridge stopped with
  the thread cleared; a second \<open>stop\<close> leaves the bridge as the first one left it and
  joins no thread, but it calls \<open>_notify\<close> with the stopped message again.
\<close>

theorem start_stop_idempotent_state:
  "(running b \<longrightarrow> start clip h b = (b, [], None)) \<and>
   running (fst (start clip h b)) \<and>
   start clip' h' (fst (start clip h b)) = (fst (start clip h b), [], None) \<and>
   \<not> running (fst (stop h b)) \<and> thread (fst (stop h b)) = None \<and>
   snd (snd (stop h b)) = None \<and>
   stop h' (fst (stop h b)) = (fst (stop h b), notify h' stopped_message, None) \<and>
   (\<not> running b \<and> thread b = None \<longrightarrow> stop h b = (b, notify h stopped_message, None))"
  by (auto simp: start_def stop_def Let_def split: sum.splits option.splits)

theorem start_stop_idempotent_state_witness:
  "running example_bridge \<and>
   start \<lparr>clip_seq = Inr 9, clip_text = Inr (str_of ''new'')\<rparr> example_host example_bridge =
     (example_bridge, [], None) \<and>
   \<not> running stopped_bridge \<and> thread stopped_bridge = None \<and>
   stop example_host stopped_bridge =
     (stopped_bridge, notify example_host stopped_message, None)"
proof -
  have r: "running example_bridge" by (simp add: example_defs)
  have s: "\<not> running stopped_bridge \<and> thread stopped_bridge = None"
    by (simp add: example_defs)
  note th = start_stop_idempotent_state
    [of _ "\<lparr>clip_seq = Inr 9, clip_text = Inr (str_of ''new'')\<rparr>" example_host]
  from th [of example_bridge] r
  have 1: "start \<lparr>clip_seq = Inr 9, clip_text = Inr (str_of ''new'')\<rparr> example_host
             example_bridge = (example_bridge, [], None)"
    by blast
  from th [of stopped_bridge] s
  have 2: "stop example_host stopped_bridge =
             (stopped_bridge, notify example_host stopped_message, None)"
    by blast
  from r s 1 2 show ?thesis by blast
qed

text \<open>
  C5, as the claim has it: \<open>stop\<close> on a stopped bridge is not a call without effect;
  it sets the status bar text once more.
\<close>

theorem stop_while_stopped_is_not_noop:
  "\<not> running stopped_bridge \<and> thread stopped_bridge = None \<and>
   fst (snd (stop example_host stopped_bridge)) =
     [Notify stopped_message, SetStatusText (str_of ''[Dragon Bridge] '' @ stopped_message)] \<and>
   stop example_host stopped_bridge \<noteq> (stopped_bridge, [], None)"
  by (simp add: stop_def notify_def example_defs)

section \<open>Properties of the settings as the bridge reads them\<close>

lemma monitor_try_config:
  "monitor_try ucd t (b\<lparr>config := c\<rparr>) =
     (case monitor_try ucd t b of (b', r) \<Rightarrow> (b'\<lparr>config := c\<rparr>, r))"
  by (auto simp: monitor_try_def Let_def split: sum.splits prod.splits)

lemma monitor_body_config:
  "monitor_body ucd t (b\<lparr>config := c\<rparr>) =
     (case monitor_body ucd t b of (b', r) \<Rightarrow> (b'\<lparr>config := c\<rparr>, r))"
  by (simp add: monitor_body_def monitor_try_config split: prod.splits)

lemma monitor_while_config:
  "monitor_while ucd tm p ts (b\<lparr>config := c\<rparr>) =
     (case monitor_while ucd tm p ts b of (b', r) \<Rightarrow> (b'\<lparr>config := c\<rparr>, r))"
proof (induction ts arbitrary: b)
  case Nil
  then show ?case by simp
next
  case (Cons t ts)
  have sw: "(if tick_stop t then b\<lparr>config := c\<rparr>\<lparr>running := False\<rparr> else b\<lparr>config := c\<rparr>) =
            (if tick_stop t then b\<lparr>running := False\<rparr> else b)\<lparr>config := c\<rparr>"
    by simp
  show ?case
    unfolding monitor_while.simps sw Let_def
    by (simp add: monitor_body_config Cons.IH split: prod.splits option.splits)
qed

lemma poll_key_not_show_key:
  "KStr (str_of ''poll_interval_ms'') \<noteq> KStr (str_of ''show_notifications'')"
  by (simp add: str_of_def)



text \<open>
  C9. Let two configurations agree on every key but \<open>show_notifications\<close>. Then
  \<open>start\<close>, \<open>stop\<close> and the monitor loop, run on bridges that differ in nothing but
  these configurations, give the same trace and the same exception, and bridges that
  again differ in nothing but the configurations. \<open>stop\<close> calls \<open>_notify\<close> with the
  stopped message under both; so does \<open>start\<close> with the started message, when the
  bridge is not running and the clipboard can be read.
\<close>

theorem show_notifications_never_read:
  assumes "\<forall>k. k \<noteq> KStr (str_of ''show_notifications'') \<longrightarrow> c1 k = c2 k"
  shows
  "start clip h (b\<lparr>config := c2\<rparr>) =
     (case start clip h (b\<lparr>config := c1\<rparr>) of (b', r) \<Rightarrow> (b'\<lparr>config := c2\<rparr>, r)) \<and>
   stop h (b\<lparr>config := c2\<rparr>) =
     (case stop h (b\<lparr>config := c1\<rparr>) of (b', r) \<Rightarrow> (b'\<lparr>config := c2\<rparr>, r)) \<and>
   monitor_loop ucd rnd tm ts (b\<lparr>config := c2\<rparr>) =
     (case monitor_loop ucd rnd tm ts (b\<lparr>config := c1\<rparr>) of
        (b', r) \<Rightarrow> (b'\<lparr>config := c2\<rparr>, r)) \<and>
   Notify stopped_message \<in> set (fst (snd (stop h (b\<lparr>config := c1\<rparr>)))) \<and>
   Notify stopped_message \<in> set (fst (snd (stop h (b\<lparr>config := c2\<rparr>)))) \<and>
   (\<not> running b \<and> (\<exists>s. clip_seq clip = Inr s) \<and> (\<exists>x. clip_text clip = Inr x) \<longrightarrow>
      Notify started_message \<in> set (fst (snd (start clip h (b\<lparr>config := c1\<rparr>)))) \<and>
      Notify started_message \<in> set (fst (snd (start clip h (b\<lparr>config := c2\<rparr>)))))"
proof -
  have poll: "c1 (KStr (str_of ''poll_interval_ms'')) = c2 (KStr (str_of ''poll_interval_ms''))"
    using assms poll_key_not_show_key by blast
  have 1: "start clip h (b\<lparr>config := c2\<rparr>) =
     (case start clip h (b\<lparr>config := c1\<rparr>) of (b', r) \<Rightarrow> (b'\<lparr>config := c2\<rparr>, r))"
    by (auto simp: start_def Let_def split: sum.splits)
  have 2: "stop h (b\<lparr>config := c2\<rparr>) =
     (case stop h (b\<lparr>config := c1\<rparr>) of (b', r) \<Rightarrow> (b'\<lparr>config := c2\<rparr>, r))"
    by (auto simp: stop_def Let_def split: option.splits)
  have w: "monitor_while ucd tm p ts (b\<lparr>config := c2\<rparr>) =
     (case monitor_while ucd tm p ts (b\<lparr>config := c1\<rparr>) of
        (b', r) \<Rightarrow> (b'\<lparr>config := c2\<rparr>, r))"
    for p
    using monitor_while_config
        [where ucd = ucd and tm = tm and p = p and ts = ts and b = b and c = c2]
      monitor_while_config
        [where ucd = ucd and tm = tm and p = p and ts = ts and b = b and c = c1]
    by (auto split: prod.splits)
  have 3: "monitor_loop ucd rnd tm ts (b\<lparr>config := c2\<rparr>) =
     (case monitor_loop ucd rnd tm ts (b\<lparr>config := c1\<rparr>) of
        (b', r) \<Rightarrow> (b'\<lparr>config := c2\<rparr>, r))"
    using poll w by (simp add: monitor_loop_def dict_get_def split: sum.splits)
  have 4: "Notify stopped_message \<in> set (fst (snd (stop h (b\<lparr>config := c\<rparr>))))" for c
    by (simp add: stop_def notify_def Let_def split: option.splits)
  have 5: "\<not> running b \<and> (\<exists>s. clip_seq clip = Inr s) \<and> (\<exists>x. clip_text clip = Inr x) \<longrightarrow>
      Notify started_message \<in> set (fst (snd (start clip h (b\<lparr>config := c\<rparr>))))" for c
    by (auto simp: start_def notify_def Let_def)
  from 1 2 3 4 [of c1] 4 [of c2] 5 [of c1] 5 [of c2] show ?thesis by blast
qed

theorem show_notifications_never_read_witness:
  "defaults (KStr (str_of ''show_notifications'')) = Some (PBool True) \<and>
   (defaults(KStr (str_of ''show_notifications'') \<mapsto> PBool False))
      (KStr (str_of ''show_notifications'')) = Some (PBool False) \<and>
   start \<lparr>clip_seq = Inr 9, clip_text = Inr (str_of ''new'')\<rparr> example_host
      (stopped_bridge\<lparr>config := defaults(KStr (str_of ''show_notifications'') \<mapsto> PBool False)\<rparr>) =
     (case start \<lparr>clip_seq = Inr 9, clip_text = Inr (str_of ''new'')\<rparr> example_host
             (stopped_bridge\<lparr>config := defaults\<rparr>) of
        (b', r) \<Rightarrow>
          (b'\<lparr>config := defaults(KStr (str_of ''show_notifications'') \<mapsto> PBool False)\<rparr>, r)) \<and>
   Notify started_message \<in>
     set (fst (snd (start \<lparr>clip_seq = Inr 9, clip_text = Inr (str_of ''new'')\<rparr> example_host
        (stopped_bridge\<lparr>config := defaults(KStr (str_of ''show_notifications'') \<mapsto> PBool False)\<rparr>)))) \<and>
   Notify stopped_message \<in>
     set (fst (snd (stop example_host
        (stopped_bridge\<lparr>config := defaults(KStr (str_of ''show_notifications'') \<mapsto> PBool False)\<rparr>))))"
proof -
  have a: "\<forall>k. k \<noteq> KStr (str_of ''show_notifications'') \<longrightarrow>
             defaults k = (defaults(KStr (str_of ''show_notifications'') \<mapsto> PBool False)) k"
    by simp
  have v: "defaults (KStr (str_of ''show_notifications'')) = Some (PBool True) \<and>
   (defaults(KStr (str_of ''show_notifications'') \<mapsto> PBool False))
      (KStr (str_of ''show_notifications'')) = Some (PBool False)"
    by (simp add: defaults_def)
  have p: "\<not> running stopped_bridge \<and>
           (\<exists>s. clip_seq \<lparr>clip_seq = Inr 9, clip_text = Inr (str_of ''new'')\<rparr> = Inr s) \<and>
           (\<exists>x. clip_text \<lparr>clip_seq = Inr (9::32 word), clip_text = Inr (str_of ''new'')\<rparr> = Inr x)"
    by (simp add: example_defs)
  from show_notifications_never_read
    [OF a, of "\<lparr>clip_seq = Inr 9, clip_text = Inr (str_of ''new'')\<rparr>" example_host
       stopped_bridge caseless example_rounding example_timer "[]"] p v
  show ?thesis by blast
qed





end
